theory Spec2Isabelle
  imports Complex_Main
begin

section \<open>Python values and exceptions\<close>

text \<open>
  The validator and the pipelines pass values typed \<open>Any\<close>. The fragment of Python
  values modelled here is: \<open>None\<close>, booleans, integers, strings, \<open>bytes\<close> objects, lists and
  tuples. A \<open>char\<close> stands for the code point of the same number. Dictionaries and floats as
  payload values are outside the fragment.
\<close>

datatype pyval =
    PNone
  | PBool bool
  | PInt int
  | PStr string
  | PBytes string
  | PList "pyval list"
  | PTuple "pyval list"

text \<open>
  An exception is its class and its message; \<open>exn_str\<close> is Python's \<open>str(e)\<close>.
  \<open>OtherError\<close> stands for any exception class raised by an external collaborator.
\<close>

datatype exn =
    ValueError string
  | TypeError string
  | RuntimeError string
  | KeyError string
  | HTTPException nat string
  | OtherError string

fun exn_str :: "exn \<Rightarrow> string" where
  "exn_str (ValueError m) = m"
| "exn_str (TypeError m) = m"
| "exn_str (RuntimeError m) = m"
| "exn_str (KeyError m) = m"
| "exn_str (HTTPException c m) = m"
| "exn_str (OtherError m) = m"

text \<open>The letter e with an acute accent, U+00E9, of the source's French messages.\<close>

definition e_acute :: char where
  "e_acute = CHR 0xE9"

text \<open>Python's \<open>==\<close> on the fragment: \<open>True == 1\<close> and \<open>False == 0\<close>, a list never equals a tuple.\<close>

fun py_eq :: "pyval \<Rightarrow> pyval \<Rightarrow> bool"
  and py_eq_list :: "pyval list \<Rightarrow> pyval list \<Rightarrow> bool" where
  "py_eq PNone PNone = True"
| "py_eq (PBool a) (PBool b) = (a = b)"
| "py_eq (PBool a) (PInt n) = ((if a then 1 else 0) = n)"
| "py_eq (PInt m) (PBool b) = (m = (if b then 1 else 0))"
| "py_eq (PInt m) (PInt n) = (m = n)"
| "py_eq (PStr s) (PStr t) = (s = t)"
| "py_eq (PBytes s) (PBytes t) = (s = t)"
| "py_eq (PList xs) (PList ys) = py_eq_list xs ys"
| "py_eq (PTuple xs) (PTuple ys) = py_eq_list xs ys"
| "py_eq _ _ = False"
| "py_eq_list [] [] = True"
| "py_eq_list (x # xs) (y # ys) = (py_eq x y \<and> py_eq_list xs ys)"
| "py_eq_list _ _ = False"

text \<open>\<open>type(data).__name__\<close>\<close>

fun type_name :: "pyval \<Rightarrow> string" where
  "type_name PNone = ''NoneType''"
| "type_name (PBool b) = ''bool''"
| "type_name (PInt n) = ''int''"
| "type_name (PStr s) = ''str''"
| "type_name (PBytes s) = ''bytes''"
| "type_name (PList xs) = ''list''"
| "type_name (PTuple xs) = ''tuple''"

section \<open>The standard library: \<open>json.dumps\<close>, digests\<close>

definition hex_digit :: "nat \<Rightarrow> char" where
  "hex_digit n = (''0123456789abcdef'') ! (n mod 16)"

fun dec_nat :: "nat \<Rightarrow> string" where
  "dec_nat n = (if n < 10 then [hex_digit n] else dec_nat (n div 10) @ [hex_digit (n mod 10)])"

declare dec_nat.simps [simp del]

definition int_repr :: "int \<Rightarrow> string" where
  "int_repr i = (if i < 0 then CHR ''-'' # dec_nat (nat (- i)) else dec_nat (nat i))"

text \<open>
  \<open>json.encoder.py_encode_basestring_ascii\<close>: printable ASCII is kept, the quote and the
  backslash are escaped, and every other character becomes a short escape or \<open>\uXXXX\<close>.
\<close>

definition escape_char :: "char \<Rightarrow> string" where
  "escape_char c =
     (let n = (of_char c :: nat) in
      if n = 0x22 then [CHR 0x5C, CHR 0x22]
      else if n = 0x5C then [CHR 0x5C, CHR 0x5C]
      else if 0x20 \<le> n \<and> n \<le> 0x7E then [c]
      else if n = 0x08 then [CHR 0x5C, CHR ''b'']
      else if n = 0x0C then [CHR 0x5C, CHR ''f'']
      else if n = 0x0A then [CHR 0x5C, CHR ''n'']
      else if n = 0x0D then [CHR 0x5C, CHR ''r'']
      else if n = 0x09 then [CHR 0x5C, CHR ''t'']
      else [CHR 0x5C, CHR ''u'', CHR ''0'', CHR ''0'', hex_digit (n div 16), hex_digit (n mod 16)])"

definition encode_basestring_ascii :: "string \<Rightarrow> string" where
  "encode_basestring_ascii s = [CHR 0x22] @ concat (map escape_char s) @ [CHR 0x22]"

fun join_items :: "string list \<Rightarrow> string" where
  "join_items [] = []"
| "join_items [s] = s"
| "join_items (s # t # ss) = s @ '', '' @ join_items (t # ss)"

text \<open>
  \<open>json.dumps(v, sort_keys=True)\<close> on the fragment, with the default separators. A tuple is
  written as a list; a \<open>bytes\<close> object raises \<open>TypeError\<close>.
\<close>

fun json_encode :: "pyval \<Rightarrow> exn + string"
  and json_encode_items :: "pyval list \<Rightarrow> exn + string list" where
  "json_encode PNone = Inr ''null''"
| "json_encode (PBool b) = Inr (if b then ''true'' else ''false'')"
| "json_encode (PInt n) = Inr (int_repr n)"
| "json_encode (PStr s) = Inr (encode_basestring_ascii s)"
| "json_encode (PBytes s) = Inl (TypeError ''Object of type bytes is not JSON serializable'')"
| "json_encode (PList xs) =
     (case json_encode_items xs of
        Inl e \<Rightarrow> Inl e
      | Inr ss \<Rightarrow> Inr (''['' @ join_items ss @ '']''))"
| "json_encode (PTuple xs) =
     (case json_encode_items xs of
        Inl e \<Rightarrow> Inl e
      | Inr ss \<Rightarrow> Inr (''['' @ join_items ss @ '']''))"
| "json_encode_items [] = Inr []"
| "json_encode_items (x # xs) =
     (case json_encode x of
        Inl e \<Rightarrow> Inl e
      | Inr s \<Rightarrow>
          (case json_encode_items xs of
             Inl e \<Rightarrow> Inl e
           | Inr ss \<Rightarrow> Inr (s # ss)))"

definition json_dumps :: "pyval \<Rightarrow> exn + string" where
  "json_dumps v = json_encode v"

text \<open>
  The final report of a conversion (the dictionary \<open>final_report\<close> of both pipelines, without
  its time stamps). The worker's report also carries the task id; \<open>fr_tiktok_result\<close> is
  \<open>None\<close> for the empty dictionary.
\<close>

record final_report =
  fr_process_id :: string
  fr_task_id :: "string option"
  fr_url :: string
  fr_output_path :: string
  fr_final_video :: string
  fr_final_hash :: string
  fr_tiktok_published :: bool
  fr_tiktok_result :: "pyval option"
  fr_metadata :: pyval
  fr_download_url :: string

text \<open>
  The digest functions are parameters of the model:
  \<open>sha256_hex s\<close> is \<open>hashlib.sha256(s).hexdigest()\<close> (of the bytes of a file, or of the UTF-8
  encoding of a text), \<open>hmac_sha256 k m\<close> is the raw digest
  \<open>hmac.new(k.encode('utf-8'), m.encode('utf-8'), hashlib.sha256).digest()\<close>,
  \<open>py_str v\<close> is \<open>str(v)\<close>, and \<open>report_json r\<close> is \<open>json.dumps(r, sort_keys=True)\<close> of a
  final report.
\<close>

record lib =
  sha256_hex :: "string \<Rightarrow> string"
  hmac_sha256 :: "string \<Rightarrow> string \<Rightarrow> string"
  py_str :: "pyval \<Rightarrow> string"
  report_json :: "final_report \<Rightarrow> string"




section \<open>\<open>IntegrityValidator\<close>\<close>

text \<open>
  One entry of the per-record results that \<open>validate_process_chain\<close> records: the entry of an
  incomplete record has \<open>index\<close>, \<open>is_valid = False\<close> and \<open>error\<close>; the entry of a checked
  record has \<open>index\<close>, \<open>stage\<close>, \<open>timestamp\<close>, \<open>hash_valid\<close>, \<open>prev_hash_valid\<close> (each
  \<open>True\<close>, \<open>False\<close> or \<open>None\<close>) and \<open>is_valid\<close>.
\<close>

datatype chain_result =
    Incomplete nat
  | Checked nat pyval pyval "bool option" "bool option" bool





text \<open>
  The entries of \<open>report["validations"]\<close>, by type, with their details (the timestamp of an
  entry is left out).
\<close>

datatype validation =
    V_file_hash string string
  | V_data_hash string string
  | V_process_chain bool nat "chain_result list"
  | V_process_chain_error string
  | V_integrity_signature string string
  | V_signature_verification bool string
  | V_signature_verification_error string

text \<open>
  The validator's state is the list of validations of its report and the report last written to
  \<open>integrity_report.json\<close>, if any. Writing the file is taken to succeed.
\<close>

record validator =
  validations :: "validation list"
  saved_report :: "validation list option"

definition IntegrityValidator_init :: "validator" where
  "IntegrityValidator_init = \<lparr>validations = [], saved_report = None\<rparr>"

definition record_validation :: "validation \<Rightarrow> validator \<Rightarrow> validator" where
  "record_validation v st =
     (let vs = validations st @ [v] in
      if length vs mod 10 = 0
      then st\<lparr>validations := vs, saved_report := Some vs\<rparr>
      else st\<lparr>validations := vs\<rparr>)"

definition generate_data_hash :: "lib \<Rightarrow> pyval \<Rightarrow> validator \<Rightarrow> string \<times> validator" where
  "generate_data_hash L data st =
     (case json_dumps data of
        Inr json_data \<Rightarrow>
          (let data_hash = sha256_hex L json_data
           in (data_hash, record_validation (V_data_hash data_hash (type_name data)) st))
      | Inl e \<Rightarrow> (sha256_hex L (py_str L data), st))"

text \<open>
  \<open>generate_file_hash\<close>: the file system is a map from the path of a readable regular file to
  its bytes. A path that is not in the map raises \<open>ValueError\<close>.
\<close>

type_synonym filesystem = "string \<rightharpoonup> string"

definition generate_file_hash ::
  "lib \<Rightarrow> string \<Rightarrow> filesystem \<Rightarrow> validator \<Rightarrow> (exn + string) \<times> validator" where
  "generate_file_hash L file_path fs st =
     (case fs file_path of
        None \<Rightarrow> (Inl (ValueError (''Le fichier n'existe pas: '' @ file_path)), st)
      | Some bytes \<Rightarrow>
          (let file_hash = sha256_hex L bytes
           in (Inr file_hash, record_validation (V_file_hash file_path file_hash) st)))"

type_synonym pydict = "string \<rightharpoonup> pyval"

text \<open>
  The loop of \<open>validate_process_chain\<close>: \<open>i\<close> is the index, \<open>ok\<close> is \<open>is_valid\<close>, \<open>prev\<close> is
  \<open>previous_hash\<close> (\<open>PNone\<close> at the start) and \<open>rs\<close> is \<open>validation_results\<close>.
\<close>

fun chain_loop ::
  "lib \<Rightarrow> nat \<Rightarrow> pydict list \<Rightarrow> bool \<Rightarrow> pyval \<Rightarrow> chain_result list \<Rightarrow> validator
     \<Rightarrow> bool \<times> chain_result list \<times> validator" where
  "chain_loop L i [] ok prev rs st = (ok, rs, st)"
| "chain_loop L i (d # ds) ok prev rs st =
     (case (d ''stage'', d ''timestamp'', d ''data_hash'') of
        (Some stage, Some ts, Some dh) \<Rightarrow>
          (let (hash_valid, st1) =
                 (case d ''data'' of
                    Some payload \<Rightarrow>
                      (let (calculated_hash, st') = generate_data_hash L payload st
                       in (Some (py_eq (PStr calculated_hash) dh), st'))
                  | None \<Rightarrow> (None, st));
               ok1 = (if hash_valid = Some False then False else ok);
               prev_hash_valid =
                 (case d ''previous_hash'' of
                    Some ph \<Rightarrow> if prev \<noteq> PNone then Some (py_eq ph prev) else None
                  | None \<Rightarrow> None);
               ok2 = (if prev_hash_valid = Some False then False else ok1)
           in chain_loop L (Suc i) ds ok2 dh
                (rs @ [Checked i stage ts hash_valid prev_hash_valid
                         (hash_valid \<noteq> Some False \<and> prev_hash_valid \<noteq> Some False)])
                st1)
      | _ \<Rightarrow> chain_loop L (Suc i) ds False prev (rs @ [Incomplete i]) st)"

definition validate_process_chain :: "lib \<Rightarrow> pydict list \<Rightarrow> validator \<Rightarrow> bool \<times> validator" where
  "validate_process_chain L chain_data st =
     (if chain_data = [] then (False, st)
      else
        (let (is_valid, validation_results, st1) = chain_loop L 0 chain_data True PNone [] st
         in (is_valid,
             record_validation
               (V_process_chain is_valid (length chain_data) validation_results) st1)))"

text \<open>The per-record results of the last \<open>process_chain\<close> validation of a report.\<close>

fun chain_results_of :: "validation list \<Rightarrow> chain_result list option" where
  "chain_results_of [] = None"
| "chain_results_of (v # vs) =
     (case chain_results_of vs of
        Some rs \<Rightarrow> Some rs
      | None \<Rightarrow> (case v of V_process_chain ok n rs \<Rightarrow> Some rs | _ \<Rightarrow> None))"



subsection \<open>The results of the loop as a function of the chain\<close>

text \<open>
  \<open>data_digest\<close> is the digest \<open>generate_data_hash\<close> returns; \<open>check_record\<close> is the entry
  the loop appends for one record, \<open>next_prev\<close> the value of \<open>previous_hash\<close> after it, and
  \<open>expected_results\<close> the list of entries for a chain. \<open>chain_loop_results\<close> below proves that
  the loop computes them.
\<close>

definition data_digest :: "lib \<Rightarrow> pyval \<Rightarrow> string" where
  "data_digest L data =
     (case json_dumps data of
        Inr json_data \<Rightarrow> sha256_hex L json_data
      | Inl e \<Rightarrow> sha256_hex L (py_str L data))"

definition check_record :: "lib \<Rightarrow> nat \<Rightarrow> pyval \<Rightarrow> pydict \<Rightarrow> chain_result" where
  "check_record L i prev d =
     (case (d ''stage'', d ''timestamp'', d ''data_hash'') of
        (Some stage, Some ts, Some dh) \<Rightarrow>
          (let hash_valid =
                 (case d ''data'' of
                    Some payload \<Rightarrow> Some (py_eq (PStr (data_digest L payload)) dh)
                  | None \<Rightarrow> None);
               prev_hash_valid =
                 (case d ''previous_hash'' of
                    Some ph \<Rightarrow> if prev \<noteq> PNone then Some (py_eq ph prev) else None
                  | None \<Rightarrow> None)
           in Checked i stage ts hash_valid prev_hash_valid
                (hash_valid \<noteq> Some False \<and> prev_hash_valid \<noteq> Some False))
      | _ \<Rightarrow> Incomplete i)"

definition next_prev :: "pyval \<Rightarrow> pydict \<Rightarrow> pyval" where
  "next_prev prev d =
     (case (d ''stage'', d ''timestamp'', d ''data_hash'') of
        (Some stage, Some ts, Some dh) \<Rightarrow> dh
      | _ \<Rightarrow> prev)"

fun expected_results :: "lib \<Rightarrow> nat \<Rightarrow> pyval \<Rightarrow> pydict list \<Rightarrow> chain_result list" where
  "expected_results L i prev [] = []"
| "expected_results L i prev (d # ds) =
     check_record L i prev d # expected_results L (Suc i) (next_prev prev d) ds"


definition prev_at :: "pyval \<Rightarrow> pydict list \<Rightarrow> nat \<Rightarrow> pyval" where
  "prev_at prev ds j = foldl next_prev prev (take j ds)"



text \<open>
  The library functions on the inputs of the examples. The table holds the SHA-256 digest of
  the text \<open>[1, 2]\<close> and the 32 bytes of its HMAC-SHA256 under the key \<open>key\<close>; no example
  evaluates a library function anywhere else.
\<close>

definition sha256_1_2 :: string where
  "sha256_1_2 = ''3a316d6d3226f84c1e46e4447fa8d5fd800bff4a1bc6498152523cd4a602b69b''"

definition hmac_key_1_2 :: string where
  "hmac_key_1_2 =
     [CHR 0x76, CHR 0xAE, CHR 0x93, CHR 0x30, CHR 0x57, CHR 0x2B, CHR 0xD8, CHR 0x08,
      CHR 0x02, CHR 0x5E, CHR 0x43, CHR 0x9C, CHR 0xF5, CHR 0xEC, CHR 0xFE, CHR 0x4A,
      CHR 0xE6, CHR 0xBE, CHR 0x62, CHR 0xA8, CHR 0x11, CHR 0xB2, CHR 0x71, CHR 0x54,
      CHR 0xC2, CHR 0x80, CHR 0xAB, CHR 0x06, CHR 0x5C, CHR 0x30, CHR 0x6A, CHR 0x25]"

definition demo_lib :: lib where
  "demo_lib =
     \<lparr>sha256_hex = (\<lambda>s. if s = ''[1, 2]'' then sha256_1_2 else []),
      hmac_sha256 = (\<lambda>k m. if k = ''key'' \<and> m = ''[1, 2]'' then hmac_key_1_2 else []),
      py_str = (\<lambda>v. []),
      report_json = (\<lambda>r. [])\<rparr>"



section \<open>The task collection and the worker's lease\<close>

text \<open>
  A document of \<open>tasks_collection\<close>, as \<open>create_task\<close> inserts it; \<open>worker_id\<close> is set by the
  lease. \<open>time.time()\<close> is read from a parameter \<open>now\<close>. The collection is the list of its
  documents in insertion order.
\<close>

record task_parameters =
  param_url :: string
  param_audio_quality :: string
  param_video_quality :: string
  param_publish :: bool
  param_hashtags :: "string list"

record task =
  task_id :: string
  task_process_id :: "string option"
  task_status :: string
  task_progress :: real
  task_message :: string
  task_parameters :: task_parameters
  priority :: int
  created_at :: real
  updated_at :: real
  worker_id :: "nat option"

text \<open>
  \<open>create_task\<close>: \<open>new_id\<close> is the generated identifier
  \<open>task_{int(time.time())}_{hash(url) % 10000:04d}\<close>; \<open>insert_one\<close> refuses a second document
  with the same \<open>_id\<close>.
\<close>

definition create_task ::
  "string \<Rightarrow> real \<Rightarrow> task_parameters \<Rightarrow> int \<Rightarrow> task list \<Rightarrow> exn + task \<times> task list" where
  "create_task new_id now params prio tasks =
     (let t = \<lparr>task_id = new_id, task_process_id = Some new_id, task_status = ''pending'',
                task_progress = 0, task_message = ''En attente de traitement'',
                task_parameters = params, priority = prio, created_at = now,
                updated_at = now, worker_id = None\<rparr>
      in if new_id \<in> task_id ` set tasks then Inl (OtherError ''DuplicateKeyError'')
         else Inr (t, tasks @ [t]))"

text \<open>
  The sort \<open>[("priority", DESCENDING), ("created_at", ASCENDING)]\<close>: \<open>sorts_before a b\<close> holds
  when \<open>a\<close> comes strictly before \<open>b\<close>.
\<close>

definition sorts_before :: "task \<Rightarrow> task \<Rightarrow> bool" where
  "sorts_before a b =
     (priority a > priority b \<or> (priority a = priority b \<and> created_at a < created_at b))"

text \<open>
  The document that \<open>find_one_and_update({"status": "pending"}, ..., sort=...)\<close> selects: the
  first in the sort order among the pending ones, as its index and the document. Between two
  documents equal in priority and creation time the earlier one of the collection is taken.
\<close>

fun select_pending :: "nat \<Rightarrow> task list \<Rightarrow> (nat \<times> task) option \<Rightarrow> (nat \<times> task) option" where
  "select_pending i [] best = best"
| "select_pending i (t # ts) best =
     select_pending (Suc i) ts
       (if task_status t = ''pending''
        then (case best of
                None \<Rightarrow> Some (i, t)
              | Some (j, u) \<Rightarrow> if sorts_before t u then Some (i, t) else Some (j, u))
        else best)"

text \<open>
  The lease of \<open>Worker.run\<close>: one \<open>find_one_and_update\<close>, which the database runs as a single
  step. It returns the selected document as it was before the update, or \<open>None\<close>, and sets
  \<open>status\<close>, \<open>updated_at\<close> and \<open>worker_id\<close> of that document. \<open>pid\<close> is \<open>os.getpid()\<close>.
\<close>

definition lease :: "real \<Rightarrow> nat \<Rightarrow> task list \<Rightarrow> task option \<times> task list" where
  "lease now pid tasks =
     (case select_pending 0 tasks None of
        None \<Rightarrow> (None, tasks)
      | Some (i, t) \<Rightarrow>
          (Some t,
           tasks[i := t\<lparr>task_status := ''processing'', updated_at := now, worker_id := Some pid\<rparr>]))"

text \<open>\<open>update_one({"_id": task_id}, {"$set": ...})\<close> changes the first document with that id.\<close>

fun update_one :: "string \<Rightarrow> (task \<Rightarrow> task) \<Rightarrow> task list \<Rightarrow> task list" where
  "update_one tid f [] = []"
| "update_one tid f (t # ts) = (if task_id t = tid then f t # ts else t # update_one tid f ts)"

definition update_task_status ::
  "string \<Rightarrow> string \<Rightarrow> real \<Rightarrow> string \<Rightarrow> real \<Rightarrow> task list \<Rightarrow> task list" where
  "update_task_status tid status progress message now tasks =
     update_one tid
       (\<lambda>t. t\<lparr>task_status := status, task_progress := progress, task_message := message,
              updated_at := now\<rparr>)
       tasks"

text \<open>
  Runs of the collection. The database executes each operation as one step, so a run of several
  workers is a sequence of operations in the order the database serves them: a lease by some
  worker, a status update, or the insertion of a new task. \<open>run_queue\<close> returns the tasks the
  leases of the run handed out, in order.
\<close>

datatype queue_op =
    Lease real nat
  | UpdateStatus string string real string real
  | CreateTask string real task_parameters int

fun queue_step :: "queue_op \<Rightarrow> task list \<Rightarrow> task option \<times> task list" where
  "queue_step (Lease now pid) tasks = lease now pid tasks"
| "queue_step (UpdateStatus tid status progress message now) tasks =
     (None, update_task_status tid status progress message now tasks)"
| "queue_step (CreateTask new_id now params prio) tasks =
     (case create_task new_id now params prio tasks of
        Inl e \<Rightarrow> (None, tasks)
      | Inr (t, tasks') \<Rightarrow> (None, tasks'))"

fun run_queue :: "queue_op list \<Rightarrow> task list \<Rightarrow> task list \<times> task list" where
  "run_queue [] tasks = ([], tasks)"
| "run_queue (opn # ops) tasks =
     (let (r, tasks1) = queue_step opn tasks;
          (leased, tasks2) = run_queue ops tasks1
      in ((case r of None \<Rightarrow> leased | Some t \<Rightarrow> t # leased), tasks2))"

text \<open>
  The status updates the worker makes set \<open>processing\<close>, \<open>completed\<close>, \<open>failed\<close> or
  \<open>interrupted\<close>, never \<open>pending\<close>.
\<close>

fun worker_op :: "queue_op \<Rightarrow> bool" where
  "worker_op (UpdateStatus tid status progress message now) = (status \<noteq> ''pending'')"
| "worker_op _ = True"

text \<open>\<open>not_after t u\<close>: \<open>t\<close> comes no later than \<open>u\<close> in the sort order of the lease.\<close>

definition not_after :: "task \<Rightarrow> task \<Rightarrow> bool" where
  "not_after t u =
     (priority u \<le> priority t \<and> (priority u = priority t \<longrightarrow> created_at t \<le> created_at u))"

text \<open>Two tasks for the examples: B is created first with priority 1, A later with priority 5.\<close>

definition demo_params :: task_parameters where
  "demo_params = \<lparr>param_url = ''https://youtu.be/x'', param_audio_quality = ''high'',
                   param_video_quality = ''high'', param_publish = False, param_hashtags = []\<rparr>"

definition task_B :: task where
  "task_B = \<lparr>task_id = ''task_B'', task_process_id = Some ''task_B'', task_status = ''pending'',
              task_progress = 0, task_message = ''En attente de traitement'',
              task_parameters = demo_params, priority = 1, created_at = 10,
              updated_at = 10, worker_id = None\<rparr>"

definition task_A :: task where
  "task_A = \<lparr>task_id = ''task_A'', task_process_id = Some ''task_A'', task_status = ''pending'',
              task_progress = 0, task_message = ''En attente de traitement'',
              task_parameters = demo_params, priority = 5, created_at = 20,
              updated_at = 20, worker_id = None\<rparr>"

section \<open>\<open>AuditLogger\<close>\<close>

text \<open>
  The audit document of a process (\<open>logs[0]\<close>, written to \<open>data/logs/<process id>/audit.json\<close>):
  its status, its events in order, and the error message once \<open>log_error\<close> ran. Time stamps are
  left out. The text rendering \<open>audit.log\<close> is written from the same document at the same time
  and is not modelled apart. Writing a document to disk is taken to succeed.
\<close>

datatype event_details =
    D_process_start string
  | D_process_complete final_report
  | D_error string

record audit_event =
  ev_type :: string
  ev_details :: event_details

record audit_doc =
  doc_process_id :: string
  doc_status :: string
  doc_events :: "audit_event list"
  doc_error :: "string option"

text \<open>The audit files on disk, by process id.\<close>

type_synonym audit_files = "string \<rightharpoonup> audit_doc"

text \<open>An \<open>AuditLogger\<close> object: its process id and its in-memory document.\<close>

record AuditLogger =
  al_process_id :: string
  logs :: audit_doc

definition write_log :: "AuditLogger \<Rightarrow> audit_files \<Rightarrow> audit_files" where
  "write_log al disk = disk(al_process_id al \<mapsto> logs al)"

text \<open>
  \<open>AuditLogger(process_id)\<close>: \<open>__init__\<close> calls \<open>_init_log\<close>, which starts a document with no
  event and writes it, opening the file with mode \<open>'w'\<close>.
\<close>

definition AuditLogger_init :: "string \<Rightarrow> audit_files \<Rightarrow> AuditLogger \<times> audit_files" where
  "AuditLogger_init process_id disk =
     (let init_log = \<lparr>doc_process_id = process_id, doc_status = ''started'', doc_events = [],
                       doc_error = None\<rparr>;
          al = \<lparr>al_process_id = process_id, logs = init_log\<rparr>
      in (al, write_log al disk))"

definition log_event ::
  "string \<Rightarrow> event_details \<Rightarrow> AuditLogger \<Rightarrow> audit_files \<Rightarrow> AuditLogger \<times> audit_files" where
  "log_event event_type details al disk =
     (let event = \<lparr>ev_type = event_type, ev_details = details\<rparr>;
          al1 = al\<lparr>logs := (logs al)\<lparr>doc_events := doc_events (logs al) @ [event]\<rparr>\<rparr>
      in (al1, write_log al1 disk))"

definition log_start :: "string \<Rightarrow> AuditLogger \<Rightarrow> audit_files \<Rightarrow> AuditLogger \<times> audit_files" where
  "log_start source_url al disk = log_event ''process_start'' (D_process_start source_url) al disk"

definition log_completion ::
  "final_report \<Rightarrow> AuditLogger \<Rightarrow> audit_files \<Rightarrow> AuditLogger \<times> audit_files" where
  "log_completion result al disk =
     (let (al1, disk1) = log_event ''process_complete'' (D_process_complete result) al disk;
          al2 = al1\<lparr>logs := (logs al1)\<lparr>doc_status := ''completed''\<rparr>\<rparr>
      in (al2, write_log al2 disk1))"

definition log_error :: "string \<Rightarrow> AuditLogger \<Rightarrow> audit_files \<Rightarrow> AuditLogger \<times> audit_files" where
  "log_error error_message al disk =
     (let (al1, disk1) = log_event ''error'' (D_error error_message) al disk;
          al2 = al1\<lparr>logs := (logs al1)\<lparr>doc_status := ''error'', doc_error := Some error_message\<rparr>\<rparr>
      in (al2, write_log al2 disk1))"

section \<open>\<open>ArtifactManager\<close>\<close>

text \<open>
  The value of a key of an \<open>artifact_info\<close> dictionary: a Python value, or the dictionary
  \<open>{path, hash, size, hash_algorithm}\<close> that \<open>save_file_info\<close> builds for a file. The dictionary
  is the list of its items in insertion order.
\<close>

datatype info_value =
    Val pyval
  | FileInfo string string nat

type_synonym artifact_info = "(string \<times> info_value) list"

record artifact_entry =
  entry_stage :: info_value
  entry_info :: artifact_info

record manifest =
  m_process_id :: string
  artifacts :: "artifact_entry list"
  m_final_report :: "final_report option"
  m_final_report_hash :: "string option"

text \<open>The manifest files on disk, by output directory.\<close>

type_synonym manifest_files = "string \<rightharpoonup> manifest"

record ArtifactManager =
  am_process_id :: string
  am_output_dir :: string
  am_manifest :: manifest

definition save_manifest :: "ArtifactManager \<Rightarrow> manifest_files \<Rightarrow> manifest_files" where
  "save_manifest am disk = disk(am_output_dir am \<mapsto> am_manifest am)"

definition ArtifactManager_init ::
  "string \<Rightarrow> string \<Rightarrow> manifest_files \<Rightarrow> ArtifactManager \<times> manifest_files" where
  "ArtifactManager_init process_id output_dir disk =
     (let am = \<lparr>am_process_id = process_id, am_output_dir = output_dir,
                 am_manifest = \<lparr>m_process_id = process_id, artifacts = [],
                                 m_final_report = None, m_final_report_hash = None\<rparr>\<rparr>
      in (am, save_manifest am disk))"

text \<open>\<open>artifact_info[key] = v\<close> for a key the dictionary already has.\<close>

definition replace_value :: "string \<Rightarrow> info_value \<Rightarrow> artifact_info \<Rightarrow> artifact_info" where
  "replace_value key v info = map (\<lambda>(k, old). if k = key then (k, v) else (k, old)) info"

text \<open>
  The loop \<open>for key, value in artifact_info.items()\<close> of \<open>save_file_info\<close>, at position \<open>pos\<close> of
  the items. For a string value that is the path of a regular file the loop assigns
  \<open>artifact_info[key + "_info"]\<close>. When the dictionary has that key already the value is
  replaced and the loop goes on; when it has not, the dictionary grows during the iteration and
  the next step of the iterator raises \<open>RuntimeError\<close>, also after the last item.
\<close>

function expand_file_paths ::
  "lib \<Rightarrow> filesystem \<Rightarrow> nat \<Rightarrow> artifact_info \<Rightarrow> exn + artifact_info" where
  "expand_file_paths L fs pos info =
     (if length info \<le> pos then Inr info
      else
        (case info ! pos of
           (key, Val (PStr value)) \<Rightarrow>
             (case fs value of
                Some bytes \<Rightarrow>
                  (if key @ ''_info'' \<in> fst ` set info
                   then expand_file_paths L fs (Suc pos)
                          (replace_value (key @ ''_info'')
                             (FileInfo value (sha256_hex L bytes) (length bytes)) info)
                   else Inl (RuntimeError ''dictionary changed size during iteration''))
              | None \<Rightarrow> expand_file_paths L fs (Suc pos) info)
         | _ \<Rightarrow> expand_file_paths L fs (Suc pos) info))"
  by pat_completeness auto
termination
  by (relation "measure (\<lambda>(L, fs, pos, info). length info - pos)")
     (auto simp: replace_value_def)

declare expand_file_paths.simps [simp del]

text \<open>
  \<open>save_file_info\<close>: the stage is read first (\<open>artifact_info.get("stage", "unknown")\<close>), then the
  loop runs, then the entry is appended to the manifest and the manifest is written. The time
  stamp and the date string that \<open>save_file_info\<close> adds to the dictionary are left out (the date
  string is taken not to be the path of a file).
\<close>

definition save_file_info ::
  "lib \<Rightarrow> filesystem \<Rightarrow> artifact_info \<Rightarrow> ArtifactManager \<Rightarrow> manifest_files
     \<Rightarrow> (exn + ArtifactManager) \<times> manifest_files" where
  "save_file_info L fs artifact_info am disk =
     (let stage = (case map_of artifact_info ''stage'' of
                     Some v \<Rightarrow> v
                   | None \<Rightarrow> Val (PStr ''unknown''))
      in case expand_file_paths L fs 0 artifact_info of
           Inl e \<Rightarrow> (Inl e, disk)
         | Inr info \<Rightarrow>
             (let artifact_entry = \<lparr>entry_stage = stage, entry_info = info\<rparr>;
                  am1 = am\<lparr>am_manifest :=
                             (am_manifest am)\<lparr>artifacts := artifacts (am_manifest am) @ [artifact_entry]\<rparr>\<rparr>
              in (Inr am1, save_manifest am1 disk)))"

text \<open>
  \<open>save_final_report\<close> writes the report to \<open>final_report.json\<close> of the output directory and
  copies it, with its digest, into the manifest. The report files on disk are kept by output
  directory.
\<close>

definition save_final_report ::
  "lib \<Rightarrow> final_report \<Rightarrow> ArtifactManager \<Rightarrow> manifest_files \<Rightarrow> (string \<rightharpoonup> final_report)
     \<Rightarrow> ArtifactManager \<times> manifest_files \<times> (string \<rightharpoonup> final_report)" where
  "save_final_report L report_data am disk reports =
     (let report_hash = sha256_hex L (report_json L report_data);
          am1 = am\<lparr>am_manifest :=
                     (am_manifest am)\<lparr>m_final_report := Some report_data,
                                       m_final_report_hash := Some report_hash\<rparr>\<rparr>
      in (am1, save_manifest am1 disk, reports(am_output_dir am \<mapsto> report_data)))"

section \<open>The six stages\<close>

datatype stage = Acquisition | Analysis | Editing | Adaptation | Optimization | Publication

fun stage_rank :: "stage \<Rightarrow> nat" where
  "stage_rank Acquisition = 0"
| "stage_rank Analysis = 1"
| "stage_rank Editing = 2"
| "stage_rank Adaptation = 3"
| "stage_rank Optimization = 4"
| "stage_rank Publication = 5"

text \<open>The value of the key \<open>stage\<close> in the artifact information of each stage.\<close>

fun stage_name :: "stage \<Rightarrow> string" where
  "stage_name Acquisition = ''acquisition''"
| "stage_name Analysis = ''analysis''"
| "stage_name Editing = ''editing''"
| "stage_name Adaptation = ''adaptation''"
| "stage_name Optimization = ''optimization''"
| "stage_name Publication = ''publication''"

text \<open>The status, the progress and the label that the pipelines set before each stage.\<close>

fun stage_status :: "stage \<Rightarrow> string" where
  "stage_status Acquisition = ''downloading''"
| "stage_status Analysis = ''analyzing''"
| "stage_status Editing = ''editing''"
| "stage_status Adaptation = ''adapting''"
| "stage_status Optimization = ''optimizing''"
| "stage_status Publication = ''publishing''"

fun stage_progress :: "stage \<Rightarrow> real" where
  "stage_progress Acquisition = 5"
| "stage_progress Analysis = 20"
| "stage_progress Editing = 40"
| "stage_progress Adaptation = 60"
| "stage_progress Optimization = 75"
| "stage_progress Publication = 90"

fun stage_label :: "stage \<Rightarrow> string" where
  "stage_label Acquisition = ''T'' @ [e_acute] @ ''l'' @ [e_acute] @ ''chargement de la vid'' @ [e_acute] @ ''o''"
| "stage_label Analysis = ''Analyse de la vid'' @ [e_acute] @ ''o''"
| "stage_label Editing = ''Montage de la vid'' @ [e_acute] @ ''o''"
| "stage_label Adaptation = ''Adaptation au format TikTok''"
| "stage_label Optimization = ''Optimisation pour la viralit'' @ [e_acute]"
| "stage_label Publication = ''Publication sur TikTok''"

record config =
  cfg_audio_quality :: string
  cfg_video_quality :: string
  cfg_output_dir :: string
  cfg_process_id :: string
  cfg_hashtags :: "string list"

text \<open>
  The stage collaborators are external: each is a function of its arguments and of the file
  system that returns its result or raises, and the file system it leaves.
\<close>

record collaborators =
  download :: "config \<Rightarrow> string \<Rightarrow> filesystem \<Rightarrow> (exn + string \<times> string \<times> pyval) \<times> filesystem"
  analyze :: "config \<Rightarrow> string \<Rightarrow> string \<Rightarrow> filesystem \<Rightarrow> (exn + pyval \<times> pyval) \<times> filesystem"
  edit :: "config \<Rightarrow> string \<Rightarrow> string \<Rightarrow> pyval \<Rightarrow> filesystem \<Rightarrow> (exn + string) \<times> filesystem"
  adapt :: "config \<Rightarrow> string \<Rightarrow> filesystem \<Rightarrow> (exn + string) \<times> filesystem"
  optimize :: "config \<Rightarrow> string \<Rightarrow> pyval \<Rightarrow> filesystem \<Rightarrow> (exn + string \<times> pyval) \<times> filesystem"
  publish :: "config \<Rightarrow> string \<Rightarrow> pyval \<Rightarrow> filesystem \<Rightarrow> (exn + pyval) \<times> filesystem"

text \<open>An entry of \<open>active_processes\<close> (the web application's state of a process).\<close>

record process =
  p_status :: string
  p_progress :: real
  p_current_stage :: string
  p_started_at :: real
  p_output_dir :: string
  p_error :: "string option"

record result_doc =
  res_task_id :: string
  res_process_id :: string
  res_report :: final_report

text \<open>
  The state outside a pipeline run: the files, the audit, manifest and report documents on disk,
  \<open>active_processes\<close>, the two database collections, and the \<open>AuditLogger\<close> bound to the
  pipeline's variable \<open>audit_logger\<close> (\<open>None\<close> while it is unbound), which the exception
  handler of the web pipeline reads. \<open>calls\<close> is the trace of the collaborator calls: the stage
  of each call, and whether the call raised.
\<close>

record world =
  files :: filesystem
  audit_disk :: audit_files
  manifest_disk :: manifest_files
  report_disk :: "string \<rightharpoonup> final_report"
  active_processes :: "string \<rightharpoonup> process"
  tasks_collection :: "task list"
  results_collection :: "result_doc list"
  audit_logger :: "AuditLogger option"
  calls :: "(stage \<times> bool) list"

text \<open>
  The local variables of a pipeline run. \<open>result\<close> is \<open>None\<close> for the empty dictionary it
  starts with.
\<close>

record locals =
  artifact_manager :: ArtifactManager
  integrity_validator :: validator
  video_path :: string
  audio_path :: string
  video_info :: pyval
  segments :: pyval
  edited_video_path :: string
  tiktok_format_path :: string
  optimized_path :: string
  optimized_hash :: string
  metadata :: pyval
  result :: "pyval option"

text \<open>A sequence of steps stops at the first one that raises.\<close>

fun run_steps ::
  "(locals \<Rightarrow> world \<Rightarrow> (exn + locals) \<times> world) list \<Rightarrow> locals \<Rightarrow> world \<Rightarrow> (exn + locals) \<times> world" where
  "run_steps [] x w = (Inr x, w)"
| "run_steps (step # steps) x w =
     (case step x w of
        (Inl e, w1) \<Rightarrow> (Inl e, w1)
      | (Inr x1, w1) \<Rightarrow> run_steps steps x1 w1)"

definition file_hash :: "lib \<Rightarrow> string \<Rightarrow> locals \<Rightarrow> world \<Rightarrow> exn + string \<times> locals" where
  "file_hash L path x w =
     (case generate_file_hash L path (files w) (integrity_validator x) of
        (Inl e, iv) \<Rightarrow> Inl e
      | (Inr h, iv) \<Rightarrow> Inr (h, x\<lparr>integrity_validator := iv\<rparr>))"

definition data_hash :: "lib \<Rightarrow> pyval \<Rightarrow> locals \<Rightarrow> string \<times> locals" where
  "data_hash L data x =
     (case generate_data_hash L data (integrity_validator x) of
        (h, iv) \<Rightarrow> (h, x\<lparr>integrity_validator := iv\<rparr>))"

definition record_artifact :: "lib \<Rightarrow> artifact_info \<Rightarrow> locals \<Rightarrow> world \<Rightarrow> (exn + locals) \<times> world" where
  "record_artifact L info x w =
     (case save_file_info L (files w) info (artifact_manager x) (manifest_disk w) of
        (Inl e, disk) \<Rightarrow> (Inl e, w\<lparr>manifest_disk := disk\<rparr>)
      | (Inr am, disk) \<Rightarrow> (Inr (x\<lparr>artifact_manager := am\<rparr>), w\<lparr>manifest_disk := disk\<rparr>))"

text \<open>
  The work of each stage, the same in both pipelines: the collaborator, the digests, the
  artifact record.
\<close>

definition do_acquisition ::
  "lib \<Rightarrow> collaborators \<Rightarrow> config \<Rightarrow> string \<Rightarrow> locals \<Rightarrow> world \<Rightarrow> (exn + locals) \<times> world" where
  "do_acquisition L E cfg url x w =
     (case download E cfg url (files w) of
        (res, fs) \<Rightarrow>
          (let w1 = w\<lparr>files := fs, calls := calls w @ [(Acquisition, isl res)]\<rparr> in
           case res of
             Inl e \<Rightarrow> (Inl e, w1)
           | Inr (vp, ap, vi) \<Rightarrow>
               (case file_hash L vp x w1 of
                  Inl e \<Rightarrow> (Inl e, w1)
                | Inr (video_hash, x1) \<Rightarrow>
                    (case file_hash L ap x1 w1 of
                       Inl e \<Rightarrow> (Inl e, w1)
                     | Inr (audio_hash, x2) \<Rightarrow>
                         record_artifact L
                           [(''stage'', Val (PStr ''acquisition'')),
                            (''video_path'', Val (PStr vp)),
                            (''video_hash'', Val (PStr video_hash)),
                            (''audio_path'', Val (PStr ap)),
                            (''audio_hash'', Val (PStr audio_hash)),
                            (''video_info'', Val vi)]
                           (x2\<lparr>video_path := vp, audio_path := ap, video_info := vi\<rparr>) w1))))"

definition do_analysis ::
  "lib \<Rightarrow> collaborators \<Rightarrow> config \<Rightarrow> locals \<Rightarrow> world \<Rightarrow> (exn + locals) \<times> world" where
  "do_analysis L E cfg x w =
     (case analyze E cfg (video_path x) (audio_path x) (files w) of
        (res, fs) \<Rightarrow>
          (let w1 = w\<lparr>files := fs, calls := calls w @ [(Analysis, isl res)]\<rparr> in
           case res of
             Inl e \<Rightarrow> (Inl e, w1)
           | Inr (segs, analysis_report) \<Rightarrow>
               (let (segments_hash, x1) = data_hash L segs x
                in record_artifact L
                     [(''stage'', Val (PStr ''analysis'')),
                      (''segments'', Val segs),
                      (''segments_hash'', Val (PStr segments_hash)),
                      (''analysis_report'', Val analysis_report)]
                     (x1\<lparr>segments := segs\<rparr>) w1)))"

definition do_editing ::
  "lib \<Rightarrow> collaborators \<Rightarrow> config \<Rightarrow> locals \<Rightarrow> world \<Rightarrow> (exn + locals) \<times> world" where
  "do_editing L E cfg x w =
     (case edit E cfg (video_path x) (audio_path x) (segments x) (files w) of
        (res, fs) \<Rightarrow>
          (let w1 = w\<lparr>files := fs, calls := calls w @ [(Editing, isl res)]\<rparr> in
           case res of
             Inl e \<Rightarrow> (Inl e, w1)
           | Inr edited \<Rightarrow>
               (case file_hash L edited x w1 of
                  Inl e \<Rightarrow> (Inl e, w1)
                | Inr (edited_hash, x1) \<Rightarrow>
                    record_artifact L
                      [(''stage'', Val (PStr ''editing'')),
                       (''edited_video_path'', Val (PStr edited)),
                       (''edited_hash'', Val (PStr edited_hash))]
                      (x1\<lparr>edited_video_path := edited\<rparr>) w1)))"

definition do_adaptation ::
  "lib \<Rightarrow> collaborators \<Rightarrow> config \<Rightarrow> locals \<Rightarrow> world \<Rightarrow> (exn + locals) \<times> world" where
  "do_adaptation L E cfg x w =
     (case adapt E cfg (edited_video_path x) (files w) of
        (res, fs) \<Rightarrow>
          (let w1 = w\<lparr>files := fs, calls := calls w @ [(Adaptation, isl res)]\<rparr> in
           case res of
             Inl e \<Rightarrow> (Inl e, w1)
           | Inr adapted \<Rightarrow>
               (case file_hash L adapted x w1 of
                  Inl e \<Rightarrow> (Inl e, w1)
                | Inr (adapted_hash, x1) \<Rightarrow>
                    record_artifact L
                      [(''stage'', Val (PStr ''adaptation'')),
                       (''tiktok_format_path'', Val (PStr adapted)),
                       (''adapted_hash'', Val (PStr adapted_hash))]
                      (x1\<lparr>tiktok_format_path := adapted\<rparr>) w1)))"

definition do_optimization ::
  "lib \<Rightarrow> collaborators \<Rightarrow> config \<Rightarrow> locals \<Rightarrow> world \<Rightarrow> (exn + locals) \<times> world" where
  "do_optimization L E cfg x w =
     (case optimize E cfg (tiktok_format_path x) (video_info x) (files w) of
        (res, fs) \<Rightarrow>
          (let w1 = w\<lparr>files := fs, calls := calls w @ [(Optimization, isl res)]\<rparr> in
           case res of
             Inl e \<Rightarrow> (Inl e, w1)
           | Inr (opt_path, meta) \<Rightarrow>
               (case file_hash L opt_path x w1 of
                  Inl e \<Rightarrow> (Inl e, w1)
                | Inr (opt_hash, x1) \<Rightarrow>
                    (let (metadata_hash, x2) = data_hash L meta x1
                     in record_artifact L
                          [(''stage'', Val (PStr ''optimization'')),
                           (''optimized_path'', Val (PStr opt_path)),
                           (''optimized_hash'', Val (PStr opt_hash)),
                           (''metadata'', Val meta),
                           (''metadata_hash'', Val (PStr metadata_hash))]
                          (x2\<lparr>optimized_path := opt_path, optimized_hash := opt_hash,
                              metadata := meta\<rparr>) w1))))"

definition do_publication ::
  "lib \<Rightarrow> collaborators \<Rightarrow> config \<Rightarrow> locals \<Rightarrow> world \<Rightarrow> (exn + locals) \<times> world" where
  "do_publication L E cfg x w =
     (case publish E cfg (optimized_path x) (metadata x) (files w) of
        (res, fs) \<Rightarrow>
          (let w1 = w\<lparr>files := fs, calls := calls w @ [(Publication, isl res)]\<rparr> in
           case res of
             Inl e \<Rightarrow> (Inl e, w1)
           | Inr pub_result \<Rightarrow>
               record_artifact L
                 [(''stage'', Val (PStr ''publication'')),
                  (''result'', Val pub_result)]
                 (x\<lparr>result := Some pub_result\<rparr>) w1))"

fun stage_body ::
  "lib \<Rightarrow> collaborators \<Rightarrow> config \<Rightarrow> string \<Rightarrow> stage \<Rightarrow> locals \<Rightarrow> world \<Rightarrow> (exn + locals) \<times> world" where
  "stage_body L E cfg url Acquisition = do_acquisition L E cfg url"
| "stage_body L E cfg url Analysis = do_analysis L E cfg"
| "stage_body L E cfg url Editing = do_editing L E cfg"
| "stage_body L E cfg url Adaptation = do_adaptation L E cfg"
| "stage_body L E cfg url Optimization = do_optimization L E cfg"
| "stage_body L E cfg url Publication = do_publication L E cfg"

definition skip_step :: "locals \<Rightarrow> world \<Rightarrow> (exn + locals) \<times> world" where
  "skip_step x w = (Inr x, w)"

definition initial_locals :: "ArtifactManager \<Rightarrow> locals" where
  "initial_locals am =
     \<lparr>artifact_manager = am, integrity_validator = IntegrityValidator_init,
      video_path = [], audio_path = [], video_info = PNone, segments = PNone,
      edited_video_path = [], tiktok_format_path = [], optimized_path = [],
      optimized_hash = [], metadata = PNone, result = None\<rparr>"

definition make_final_report ::
  "string \<Rightarrow> string option \<Rightarrow> string \<Rightarrow> string \<Rightarrow> bool \<Rightarrow> locals \<Rightarrow> final_report" where
  "make_final_report process_id tid url output_path publish_flag x =
     \<lparr>fr_process_id = process_id, fr_task_id = tid, fr_url = url, fr_output_path = output_path,
      fr_final_video = optimized_path x, fr_final_hash = optimized_hash x,
      fr_tiktok_published = publish_flag,
      fr_tiktok_result = (if publish_flag then result x else None),
      fr_metadata = metadata x,
      fr_download_url = ''/api/download/'' @ process_id\<rparr>"

text \<open>
  Saving the final report and logging the completion, common to both pipelines. The logger is
  the one bound to \<open>audit_logger\<close>.
\<close>

definition save_and_log_report :: "lib \<Rightarrow> final_report \<Rightarrow> locals \<Rightarrow> world \<Rightarrow> (exn + locals) \<times> world" where
  "save_and_log_report L report x w =
     (case save_final_report L report (artifact_manager x) (manifest_disk w) (report_disk w) of
        (am, mdisk, rdisk) \<Rightarrow>
          (let w1 = w\<lparr>manifest_disk := mdisk, report_disk := rdisk\<rparr> in
           case audit_logger w1 of
             None \<Rightarrow> (Inl (OtherError ''UnboundLocalError''), w1)
           | Some al \<Rightarrow>
               (case log_completion report al (audit_disk w1) of
                  (al1, adisk) \<Rightarrow>
                    (Inr (x\<lparr>artifact_manager := am\<rparr>),
                     w1\<lparr>audit_logger := Some al1, audit_disk := adisk\<rparr>))))"

section \<open>The web application: \<open>update_process_status\<close>, \<open>cancel_conversion\<close>, \<open>process_conversion\<close>\<close>

definition update_process_status ::
  "string \<Rightarrow> string \<Rightarrow> real \<Rightarrow> string \<Rightarrow> (string \<rightharpoonup> process)
     \<Rightarrow> (exn + unit) \<times> (string \<rightharpoonup> process)" where
  "update_process_status process_id status progress stage procs =
     (case procs process_id of
        None \<Rightarrow> (Inr (), procs)
      | Some p \<Rightarrow>
          if p_status p = ''cancelled''
          then (Inl (ValueError (''Processus annul'' @ [e_acute] @ '' par l'utilisateur'')), procs)
          else (Inr (),
                procs(process_id \<mapsto>
                  p\<lparr>p_status := status, p_progress := progress, p_current_stage := stage\<rparr>)))"

definition cancel_conversion ::
  "string \<Rightarrow> (string \<rightharpoonup> process) \<Rightarrow> (exn + string \<times> string) \<times> (string \<rightharpoonup> process)" where
  "cancel_conversion process_id procs =
     (case procs process_id of
        None \<Rightarrow> (Inl (HTTPException 404 (''Processus non trouv'' @ [e_acute])), procs)
      | Some p \<Rightarrow>
          if p_status p \<in> {''completed'', ''failed''}
          then (Inl (HTTPException 400 (''Processus d'' @ [e_acute] @ ''j'' @ [CHR 0xE0]
                                         @ '' termin'' @ [e_acute])), procs)
          else (Inr (''success'', ''Conversion annul'' @ [e_acute] @ ''e''),
                procs(process_id \<mapsto>
                  p\<lparr>p_status := ''cancelled'', p_progress := 100,
                     p_current_stage := ''annulation''\<rparr>)))"

text \<open>\<open>convert_video\<close> registers the process before the pipeline is started in the background.\<close>

definition convert_video :: "string \<Rightarrow> real \<Rightarrow> (string \<rightharpoonup> process) \<Rightarrow> (string \<rightharpoonup> process)" where
  "convert_video process_id now procs =
     procs(process_id \<mapsto>
       \<lparr>p_status = ''initializing'', p_progress = 0, p_current_stage = ''initialisation'',
        p_started_at = now, p_output_dir = ''data/output/'' @ process_id, p_error = None\<rparr>)"

text \<open>
  Cancel requests arrive while the pipeline runs. \<open>C s\<close> says that a cancel request for the
  process is served while stage \<open>s\<close> is in flight, after the status update that opens the stage
  and before the pipeline continues.
\<close>

definition serve_cancel :: "(stage \<Rightarrow> bool) \<Rightarrow> string \<Rightarrow> stage \<Rightarrow> world \<Rightarrow> world" where
  "serve_cancel C process_id s w =
     (if C s
      then w\<lparr>active_processes := snd (cancel_conversion process_id (active_processes w))\<rparr>
      else w)"

definition app_stage ::
  "(stage \<Rightarrow> bool) \<Rightarrow> string \<Rightarrow> stage \<Rightarrow> (locals \<Rightarrow> world \<Rightarrow> (exn + locals) \<times> world)
     \<Rightarrow> locals \<Rightarrow> world \<Rightarrow> (exn + locals) \<times> world" where
  "app_stage C process_id s body x w =
     (case update_process_status process_id (stage_status s) (stage_progress s) (stage_label s)
             (active_processes w) of
        (Inl e, procs) \<Rightarrow> (Inl e, w)
      | (Inr u, procs) \<Rightarrow>
          (case body x (w\<lparr>active_processes := procs\<rparr>) of
             (r, w1) \<Rightarrow> (r, serve_cancel C process_id s w1)))"





section \<open>The worker: \<open>process_task\<close> and \<open>run\<close>\<close>

definition worker_stage ::
  "string \<Rightarrow> real \<Rightarrow> stage \<Rightarrow> (locals \<Rightarrow> world \<Rightarrow> (exn + locals) \<times> world)
     \<Rightarrow> locals \<Rightarrow> world \<Rightarrow> (exn + locals) \<times> world" where
  "worker_stage tid now s body x w =
     body x
       (w\<lparr>tasks_collection :=
            update_task_status tid ''processing'' (stage_progress s) (stage_label s) now
              (tasks_collection w)\<rparr>)"

definition worker_finalize ::
  "lib \<Rightarrow> config \<Rightarrow> string \<Rightarrow> string \<Rightarrow> string \<Rightarrow> bool \<Rightarrow> real \<Rightarrow> locals \<Rightarrow> world
     \<Rightarrow> (exn + locals) \<times> world" where
  "worker_finalize L cfg tid process_id url publish_flag now x w =
     (let final_report =
            make_final_report process_id (Some tid) url (cfg_output_dir cfg) publish_flag x
      in case save_and_log_report L final_report x w of
           (Inl e, w1) \<Rightarrow> (Inl e, w1)
         | (Inr x1, w1) \<Rightarrow>
             (Inr x1,
              w1\<lparr>results_collection :=
                    results_collection w1 @
                      [\<lparr>res_task_id = tid, res_process_id = process_id, res_report = final_report\<rparr>],
                  tasks_collection :=
                    update_task_status tid ''completed'' 100
                      (''Conversion termin'' @ [e_acute] @ ''e'') now (tasks_collection w1)\<rparr>))"

definition worker_steps ::
  "lib \<Rightarrow> collaborators \<Rightarrow> config \<Rightarrow> string \<Rightarrow> string \<Rightarrow> string \<Rightarrow> bool \<Rightarrow> real
     \<Rightarrow> (locals \<Rightarrow> world \<Rightarrow> (exn + locals) \<times> world) list" where
  "worker_steps L E cfg tid process_id url publish_flag now =
     [worker_stage tid now Acquisition (stage_body L E cfg url Acquisition),
      worker_stage tid now Analysis (stage_body L E cfg url Analysis),
      worker_stage tid now Editing (stage_body L E cfg url Editing),
      worker_stage tid now Adaptation (stage_body L E cfg url Adaptation),
      worker_stage tid now Optimization (stage_body L E cfg url Optimization),
      (if publish_flag
       then worker_stage tid now Publication (stage_body L E cfg url Publication)
       else skip_step),
      worker_finalize L cfg tid process_id url publish_flag now]"

definition task_pid :: "task \<Rightarrow> string" where
  "task_pid t = (case task_process_id t of Some p \<Rightarrow> p | None \<Rightarrow> task_id t)"

text \<open>The \<open>try\<close> block of \<open>process_task\<close>: the error it raises, if any, and the state it leaves.\<close>

definition process_task_body ::
  "lib \<Rightarrow> collaborators \<Rightarrow> real \<Rightarrow> task \<Rightarrow> world \<Rightarrow> (exn + locals) \<times> world" where
  "process_task_body L E now t w =
     (let tid = task_id t;
          process_id = task_pid t;
          w0 = w\<lparr>tasks_collection :=
                   update_task_status tid ''processing'' 0 ''Initialisation'' now
                     (tasks_collection w)\<rparr>;
          params = task_parameters t;
          output_path = ''data/output/'' @ process_id;
          cfg = \<lparr>cfg_audio_quality = param_audio_quality params,
                 cfg_video_quality = param_video_quality params,
                 cfg_output_dir = output_path, cfg_process_id = process_id,
                 cfg_hashtags = param_hashtags params\<rparr>;
          (al0, adisk0) = AuditLogger_init process_id (audit_disk w0);
          (al, adisk) = log_start (param_url params) al0 adisk0;
          (am, mdisk) = ArtifactManager_init process_id output_path (manifest_disk w0);
          w1 = w0\<lparr>audit_disk := adisk, manifest_disk := mdisk, audit_logger := Some al\<rparr>
      in run_steps
           (worker_steps L E cfg tid process_id (param_url params) (param_publish params) now)
           (initial_locals am) w1)"

text \<open>
  The \<open>except\<close> block of \<open>process_task\<close>: a new \<open>AuditLogger\<close> is made for the process id, the
  error is logged with it, and the task is marked failed.
\<close>

definition worker_handler :: "real \<Rightarrow> task \<Rightarrow> exn \<Rightarrow> world \<Rightarrow> world" where
  "worker_handler now t e w =
     (let (al0, adisk0) = AuditLogger_init (task_pid t) (audit_disk w);
          (al, adisk) = log_error (exn_str e) al0 adisk0
      in w\<lparr>audit_disk := adisk, audit_logger := Some al,
            tasks_collection :=
              update_task_status (task_id t) ''failed'' 100 (''Erreur: '' @ exn_str e) now
                (tasks_collection w)\<rparr>)"

definition process_task :: "lib \<Rightarrow> collaborators \<Rightarrow> real \<Rightarrow> task \<Rightarrow> world \<Rightarrow> world" where
  "process_task L E now t w =
     (case process_task_body L E now t (w\<lparr>audit_logger := None\<rparr>) of
        (Inr x, w1) \<Rightarrow> w1
      | (Inl e, w1) \<Rightarrow> worker_handler now t e w1)"

text \<open>
  One turn of the loop of \<open>Worker.run\<close>: lease a task and process it, or find none (and sleep).
  \<open>run\<close> makes at most \<open>fuel\<close> turns while \<open>running\<close> is set.
\<close>

record worker =
  running :: bool
  current_task :: "task option"

definition run_turn ::
  "lib \<Rightarrow> collaborators \<Rightarrow> real \<Rightarrow> nat \<Rightarrow> worker \<Rightarrow> world \<Rightarrow> worker \<times> world" where
  "run_turn L E now pid wk w =
     (case lease now pid (tasks_collection w) of
        (Some t, tasks) \<Rightarrow>
          (let wk1 = wk\<lparr>current_task := Some t\<rparr>;
               w1 = process_task L E now t (w\<lparr>tasks_collection := tasks\<rparr>)
           in (wk1\<lparr>current_task := None\<rparr>, w1))
      | (None, tasks) \<Rightarrow> (wk, w))"

fun run :: "nat \<Rightarrow> lib \<Rightarrow> collaborators \<Rightarrow> real \<Rightarrow> nat \<Rightarrow> worker \<Rightarrow> world \<Rightarrow> worker \<times> world" where
  "run 0 L E now pid wk w = (wk, w)"
| "run (Suc fuel) L E now pid wk w =
     (if running wk
      then (case run_turn L E now pid wk w of (wk1, w1) \<Rightarrow> run fuel L E now pid wk1 w1)
      else (wk, w))"

section \<open>Vocabulary of the pipeline results\<close>

text \<open>
  \<open>no_later k c0 dir w\<close>: in the state \<open>w\<close>, no stage of rank above \<open>k\<close> is in the trace of
  collaborator calls unless it is in \<open>c0\<close> (the trace before the run), and the manifest on disk
  for the output directory \<open>dir\<close> holds no artifact of a stage of rank above \<open>k\<close>.
  \<open>am_no_later\<close> says the same of the manifest of the run's \<open>ArtifactManager\<close>.
\<close>

definition no_later :: "nat \<Rightarrow> stage set \<Rightarrow> string \<Rightarrow> world \<Rightarrow> bool" where
  "no_later k c0 dir w =
     ((\<forall>s b. k < stage_rank s \<longrightarrow> (s, b) \<in> set (calls w) \<longrightarrow> s \<in> c0) \<and>
      (\<forall>m. manifest_disk w dir = Some m \<longrightarrow>
         (\<forall>a \<in> set (artifacts m). \<forall>s. k < stage_rank s \<longrightarrow>
            entry_stage a \<noteq> Val (PStr (stage_name s)))))"


text \<open>What a stage body leaves alone.\<close>

definition same_control :: "world \<Rightarrow> world \<Rightarrow> bool" where
  "same_control w w' =
     (active_processes w' = active_processes w \<and> tasks_collection w' = tasks_collection w \<and>
      results_collection w' = results_collection w \<and> audit_disk w' = audit_disk w \<and>
      audit_logger w' = audit_logger w \<and> report_disk w' = report_disk w)"








subsection \<open>Examples\<close>

text \<open>Collaborators of which the download fails; the others return fixed values.\<close>

definition failing_download :: collaborators where
  "failing_download =
     \<lparr>download = (\<lambda>cfg url fs. (Inl (OtherError ''network unreachable''), fs)),
      analyze = (\<lambda>cfg v a fs. (Inr (PList [], PNone), fs)),
      edit = (\<lambda>cfg v a sg fs. (Inr ''data/temp/edited.mp4'', fs)),
      adapt = (\<lambda>cfg v fs. (Inr ''data/temp/adapted.mp4'', fs)),
      optimize = (\<lambda>cfg v vi fs. (Inr (''data/temp/optimized.mp4'', PNone), fs)),
      publish = (\<lambda>cfg v m fs. (Inr PNone, fs))\<rparr>"

definition empty_world :: world where
  "empty_world =
     \<lparr>files = Map.empty, audit_disk = Map.empty, manifest_disk = Map.empty,
      report_disk = Map.empty, active_processes = Map.empty, tasks_collection = [],
      results_collection = [], audit_logger = None, calls = []\<rparr>"


text \<open>The processes when the pipeline of \<open>p1\<close> has opened the editing stage.\<close>

definition editing_procs :: "string \<rightharpoonup> process" where
  "editing_procs =
     snd (update_process_status ''p1'' (stage_status Editing) (stage_progress Editing)
            (stage_label Editing) (convert_video ''p1'' 0 Map.empty))"

definition completed_procs :: "string \<rightharpoonup> process" where
  "completed_procs =
     [''p1'' \<mapsto> \<lparr>p_status = ''completed'', p_progress = 100,
                  p_current_stage = ''Conversion termin'' @ [e_acute] @ ''e'',
                  p_started_at = 0, p_output_dir = ''data/output/p1'', p_error = None\<rparr>]"

text \<open>The task collection after worker 7 leased task A.\<close>

definition leased_world :: world where
  "leased_world = empty_world\<lparr>tasks_collection := snd (lease 30 7 [task_A])\<rparr>"

section \<open>Hash chains and signatures: results\<close>







lemma validations_record_validation [simp]:
  "validations (record_validation v st) = validations st @ [v]"
  by (simp add: record_validation_def Let_def)

lemma chain_results_of_snoc [simp]:
  "chain_results_of (vs @ [V_process_chain ok n rs]) = Some rs"
  by (induction vs) simp_all


lemma length_expected_results [simp]:
  "length (expected_results L i prev ds) = length ds"
  by (induction ds arbitrary: i prev) simp_all



lemma prev_at_0 [simp]: "prev_at prev ds 0 = prev"
  by (simp add: prev_at_def)





















text \<open>
  C10. \<open>validate_process_chain\<close> on the empty list returns \<open>False\<close>: the empty chain is reported
  invalid, and nothing is recorded in the report.
\<close>

theorem C10_empty_chain_invalid:
  "validate_process_chain L [] st = (False, st)"
  by (simp add: validate_process_chain_def)

section \<open>The lease: results\<close>

lemma select_pending_cases:
  "select_pending i ts best = r \<Longrightarrow>
     r = best \<or> (\<exists>j t. r = Some (i + j, t) \<and> j < length ts \<and> ts ! j = t \<and> task_status t = ''pending'')"
proof (induction ts arbitrary: i best)
  case Nil
  then show ?case by simp
next
  case (Cons a ts)
  let ?b = "if task_status a = ''pending''
        then (case best of
                None \<Rightarrow> Some (i, a)
              | Some (j, u) \<Rightarrow> if sorts_before a u then Some (i, a) else Some (j, u))
        else best"
  from Cons.prems have "select_pending (Suc i) ts ?b = r" by simp
  from Cons.IH[OF this] show ?case
  proof
    assume "r = ?b"
    then have "r = best \<or> (r = Some (i, a) \<and> task_status a = ''pending'')"
      by (auto split: if_splits option.splits)
    then show ?thesis
      by (auto intro: exI[where x = 0])
  next
    assume "\<exists>j t. r = Some (Suc i + j, t) \<and> j < length ts \<and> ts ! j = t \<and> task_status t = ''pending''"
    then obtain j t where "r = Some (Suc i + j, t)" "j < length ts" "ts ! j = t"
      "task_status t = ''pending''" by blast
    then have "r = Some (i + Suc j, t) \<and> Suc j < length (a # ts) \<and> (a # ts) ! Suc j = t \<and>
               task_status t = ''pending''"
      by simp
    then show ?thesis by blast
  qed
qed

lemma select_pending_None:
  "select_pending i ts best = None \<longleftrightarrow>
     best = None \<and> (\<forall>t \<in> set ts. task_status t \<noteq> ''pending'')"
  by (induction ts arbitrary: i best) (auto split: option.splits)

lemma not_after_refl: "not_after t t"
  by (simp add: not_after_def)

lemma not_after_trans: "not_after a b \<Longrightarrow> not_after b c \<Longrightarrow> not_after a c"
  by (auto simp: not_after_def)

lemma sorts_before_not_after: "sorts_before a b \<Longrightarrow> not_after a b"
  by (auto simp: sorts_before_def not_after_def)

lemma not_sorts_before_not_after: "\<not> sorts_before a b \<Longrightarrow> not_after b a"
  by (auto simp: sorts_before_def not_after_def)

lemma select_pending_best:
  "select_pending i ts best = Some (k, r) \<Longrightarrow>
     (\<forall>j u. best = Some (j, u) \<longrightarrow> not_after r u) \<and>
     (\<forall>t \<in> set ts. task_status t = ''pending'' \<longrightarrow> not_after r t)"
proof (induction ts arbitrary: i best)
  case Nil
  then show ?case by (auto simp: not_after_refl)
next
  case (Cons a ts)
  let ?b = "if task_status a = ''pending''
        then (case best of
                None \<Rightarrow> Some (i, a)
              | Some (j, u) \<Rightarrow> if sorts_before a u then Some (i, a) else Some (j, u))
        else best"
  from Cons.prems have run: "select_pending (Suc i) ts ?b = Some (k, r)" by simp
  note ih = Cons.IH[OF run]
  have tail: "\<forall>t \<in> set ts. task_status t = ''pending'' \<longrightarrow> not_after r t"
    using ih by blast
  have best: "not_after r u" if "best = Some (j, u)" for j u
  proof (cases "task_status a = ''pending'' \<and> sorts_before a u")
    case True
    with that have "?b = Some (i, a)" by simp
    with ih have "not_after r a" by auto
    with True show ?thesis
      by (blast intro: not_after_trans sorts_before_not_after)
  next
    case False
    with that have "?b = Some (j, u)" by auto
    with ih show ?thesis by auto
  qed
  have head: "not_after r a" if p: "task_status a = ''pending''"
  proof (cases best)
    case None
    with p have "?b = Some (i, a)" by simp
    with ih show ?thesis by auto
  next
    case (Some ju)
    obtain j u where ju: "ju = (j, u)" by (cases ju)
    show ?thesis
    proof (cases "sorts_before a u")
      case True
      with p Some ju have "?b = Some (i, a)" by simp
      with ih show ?thesis by auto
    next
      case False
      with p Some ju have "?b = Some (j, u)" by simp
      with ih have "not_after r u" by auto
      with False show ?thesis
        by (blast intro: not_after_trans not_sorts_before_not_after)
    qed
  qed
  from tail best head show ?case by auto
qed

text \<open>
  C4. The lease returns no task exactly when no task is pending. A task it returns is a pending
  task of the collection, no pending task has a higher priority, and no pending task of the same
  priority was created earlier. With task A (priority 5, created later) and task B (priority 1,
  created earlier) both pending, it returns A.
\<close>

theorem C4_lease_selects_highest_priority_oldest:
  assumes "lease now pid tasks = (r, tasks')"
  shows "(r = None \<longleftrightarrow> (\<forall>t \<in> set tasks. task_status t \<noteq> ''pending'')) \<and>
         (\<forall>t. r = Some t \<longrightarrow>
            t \<in> set tasks \<and> task_status t = ''pending'' \<and>
            (\<forall>u \<in> set tasks. task_status u = ''pending'' \<longrightarrow>
               priority u \<le> priority t \<and>
               (priority u = priority t \<longrightarrow> created_at t \<le> created_at u)))"
proof (cases "select_pending 0 tasks None")
  case None
  with assms have "r = None" by (simp add: lease_def)
  with None show ?thesis by (simp add: select_pending_None)
next
  case (Some it)
  obtain i t where it: "it = (i, t)" by (cases it)
  from assms Some it have r: "r = Some t" by (simp add: lease_def)
  from select_pending_cases[OF Some[unfolded it]]
  have mem: "t \<in> set tasks \<and> task_status t = ''pending''" by auto
  from select_pending_best[OF Some[unfolded it]]
  have "\<forall>u \<in> set tasks. task_status u = ''pending'' \<longrightarrow> not_after t u" by blast
  with r mem show ?thesis
    by (auto simp: not_after_def)
qed

theorem C4_witness:
  "fst (lease 30 7 [task_B, task_A]) = Some task_A \<and>
   fst (lease 30 7 [task_A, task_B]) = Some task_A \<and>
   task_status task_A = ''pending'' \<and> priority task_B \<le> priority task_A"
proof -
  have run: "lease 30 7 [task_B, task_A] =
               (fst (lease 30 7 [task_B, task_A]), snd (lease 30 7 [task_B, task_A]))"
    by simp
  have one: "fst (lease 30 7 [task_B, task_A]) = Some task_A"
    by (simp add: lease_def task_A_def task_B_def sorts_before_def)
  from C4_lease_selects_highest_priority_oldest[OF run] one
  have "task_status task_A = ''pending'' \<and> priority task_B \<le> priority task_A"
    by (simp add: task_B_def)
  moreover have "fst (lease 30 7 [task_A, task_B]) = Some task_A"
    by (simp add: lease_def task_A_def task_B_def sorts_before_def)
  ultimately show ?thesis using one by simp
qed


lemma lease_Some:
  assumes "lease now pid tasks = (Some t, tasks1)"
  shows "\<exists>i < length tasks. tasks ! i = t \<and> task_status t = ''pending'' \<and>
           tasks1 = tasks[i := t\<lparr>task_status := ''processing'', updated_at := now,
                                  worker_id := Some pid\<rparr>]"
proof (cases "select_pending 0 tasks None")
  case None
  with assms show ?thesis by (simp add: lease_def)
next
  case (Some it)
  obtain i u where it: "it = (i, u)" by (cases it)
  from assms Some it have "u = t"
    and "tasks1 = tasks[i := t\<lparr>task_status := ''processing'', updated_at := now,
                                  worker_id := Some pid\<rparr>]"
    by (auto simp: lease_def)
  moreover from select_pending_cases[OF Some[unfolded it]]
  have "i < length tasks \<and> tasks ! i = u \<and> task_status u = ''pending''" by auto
  ultimately show ?thesis by blast
qed

lemma lease_None:
  assumes "lease now pid tasks = (None, tasks1)"
  shows "tasks1 = tasks \<and> (\<forall>t \<in> set tasks. task_status t \<noteq> ''pending'')"
  using assms by (auto simp: lease_def select_pending_None split: option.splits)

lemma map_task_id_update_one:
  "(\<And>t. task_id (f t) = task_id t) \<Longrightarrow> map task_id (update_one tid f tasks) = map task_id tasks"
  by (induction tasks) simp_all

lemma update_one_closed:
  assumes "t \<in> set tasks" "task_status t \<noteq> ''pending''"
    and "\<And>t. task_id (f t) = task_id t" "\<And>t. task_status (f t) \<noteq> ''pending''"
  shows "\<exists>u \<in> set (update_one tid f tasks). task_id u = task_id t \<and> task_status u \<noteq> ''pending''"
  using assms(1,2)
proof (induction tasks)
  case Nil
  then show ?case by simp
next
  case (Cons a tasks)
  then show ?case
    using assms(3,4) by (cases "task_id a = tid") auto
qed

lemma queue_step_invariant:
  assumes d: "distinct (map task_id tasks)" and w: "worker_op opn"
    and s: "queue_step opn tasks = (r, tasks1)"
  shows "distinct (map task_id tasks1)"
    and "\<And>t. t \<in> set tasks \<Longrightarrow> task_status t \<noteq> ''pending'' \<Longrightarrow>
           \<exists>u \<in> set tasks1. task_id u = task_id t \<and> task_status u \<noteq> ''pending''"
    and "\<And>a. r = Some a \<Longrightarrow>
           (\<exists>u \<in> set tasks1. task_id u = task_id a \<and> task_status u \<noteq> ''pending'') \<and>
           (\<forall>t \<in> set tasks. task_id t = task_id a \<longrightarrow> task_status t = ''pending'')"
proof -
  show "distinct (map task_id tasks1)"
  proof (cases opn)
    case (Lease now pid)
    show ?thesis
    proof (cases r)
      case None
      with s Lease d show ?thesis using lease_None[of now pid tasks tasks1] by simp
    next
      case (Some a)
      with s Lease obtain i where "i < length tasks" "tasks ! i = a"
        "tasks1 = tasks[i := a\<lparr>task_status := ''processing'', updated_at := now,
                                  worker_id := Some pid\<rparr>]"
        using lease_Some[of now pid tasks a tasks1] by auto
      then have "map task_id tasks1 = map task_id tasks"
        by (simp add: map_update list_update_same_conv)
      with d show ?thesis by simp
    qed
  next
    case (UpdateStatus tid status progress message now)
    with s d show ?thesis
      by (auto simp: update_task_status_def map_task_id_update_one)
  next
    case (CreateTask new_id now params prio)
    with s d show ?thesis
      by (auto simp: create_task_def Let_def split: if_splits)
  qed
next
  fix t assume t: "t \<in> set tasks" "task_status t \<noteq> ''pending''"
  show "\<exists>u \<in> set tasks1. task_id u = task_id t \<and> task_status u \<noteq> ''pending''"
  proof (cases opn)
    case (Lease now pid)
    show ?thesis
    proof (cases r)
      case None
      with s Lease t show ?thesis using lease_None[of now pid tasks tasks1] by auto
    next
      case (Some a)
      with s Lease obtain i where i: "i < length tasks" "tasks ! i = a" "task_status a = ''pending''"
        "tasks1 = tasks[i := a\<lparr>task_status := ''processing'', updated_at := now,
                                  worker_id := Some pid\<rparr>]"
        using lease_Some[of now pid tasks a tasks1] by auto
      from t obtain j where j: "j < length tasks" "tasks ! j = t"
        by (auto simp: in_set_conv_nth)
      with i t have "j \<noteq> i" by auto
      with i j have "tasks1 ! j = t" "j < length tasks1" by simp_all
      then have "t \<in> set tasks1" by (metis nth_mem)
      with t show ?thesis by blast
    qed
  next
    case (UpdateStatus tid status progress message now)
    with w have "status \<noteq> ''pending''" by simp
    with s UpdateStatus t show ?thesis
      using update_one_closed[of t tasks "\<lambda>t. t\<lparr>task_status := status, task_progress := progress,
              task_message := message, updated_at := now\<rparr>" tid]
      by (auto simp: update_task_status_def)
  next
    case (CreateTask new_id now params prio)
    with s t show ?thesis
      by (auto simp: create_task_def Let_def split: if_splits)
  qed
next
  fix a assume a: "r = Some a"
  show "(\<exists>u \<in> set tasks1. task_id u = task_id a \<and> task_status u \<noteq> ''pending'') \<and>
           (\<forall>t \<in> set tasks. task_id t = task_id a \<longrightarrow> task_status t = ''pending'')"
  proof (cases opn)
    case (Lease now pid)
    with s a obtain i where i: "i < length tasks" "tasks ! i = a" "task_status a = ''pending''"
        "tasks1 = tasks[i := a\<lparr>task_status := ''processing'', updated_at := now,
                                  worker_id := Some pid\<rparr>]"
      using lease_Some[of now pid tasks a tasks1] by auto
    let ?a' = "a\<lparr>task_status := ''processing'', updated_at := now, worker_id := Some pid\<rparr>"
    from i have "tasks1 ! i = ?a'" "i < length tasks1" by simp_all
    then have "?a' \<in> set tasks1" by (metis nth_mem)
    then have one: "\<exists>u \<in> set tasks1. task_id u = task_id a \<and> task_status u \<noteq> ''pending''"
      by (intro bexI[where x = ?a']) simp_all
    have two: "task_status t = ''pending''" if "t \<in> set tasks" "task_id t = task_id a" for t
    proof -
      from that obtain j where j: "j < length tasks" "tasks ! j = t"
        by (auto simp: in_set_conv_nth)
      with that i d have "j = i"
        by (metis distinct_conv_nth length_map nth_map)
      with i j show ?thesis by simp
    qed
    from one two show ?thesis by blast
  next
    case (UpdateStatus tid status progress message now)
    with s a show ?thesis by simp
  next
    case (CreateTask new_id now params prio)
    with s a show ?thesis by (auto split: sum.splits)
  qed
qed

lemma run_queue_leases_once:
  assumes "distinct (map task_id tasks)" and "\<forall>opn \<in> set ops. worker_op opn"
    and "run_queue ops tasks = (leased, tasks')"
  shows "distinct (map task_id leased) \<and>
         (\<forall>a \<in> set leased. \<forall>t \<in> set tasks. task_id t = task_id a \<longrightarrow> task_status t = ''pending'')"
  using assms
proof (induction ops arbitrary: tasks leased tasks')
  case Nil
  then show ?case by simp
next
  case (Cons opn ops)
  obtain r tasks1 where s: "queue_step opn tasks = (r, tasks1)"
    by (cases "queue_step opn tasks")
  obtain ls tasks2 where rest: "run_queue ops tasks1 = (ls, tasks2)"
    by (cases "run_queue ops tasks1")
  from Cons.prems(3) s rest
  have leased: "leased = (case r of None \<Rightarrow> ls | Some t \<Rightarrow> t # ls)" by simp
  from Cons.prems(2) have w: "worker_op opn" and ws: "\<forall>opn \<in> set ops. worker_op opn"
    by simp_all
  note inv = queue_step_invariant[OF Cons.prems(1) w s]
  from Cons.IH[OF inv(1) ws rest]
  have ih1: "distinct (map task_id ls)"
    and ih2: "\<forall>a \<in> set ls. \<forall>t \<in> set tasks1. task_id t = task_id a \<longrightarrow> task_status t = ''pending''"
    by simp_all
  have old: "\<forall>a \<in> set ls. \<forall>t \<in> set tasks. task_id t = task_id a \<longrightarrow> task_status t = ''pending''"
  proof (intro ballI impI)
    fix a t assume a: "a \<in> set ls" and t: "t \<in> set tasks" "task_id t = task_id a"
    show "task_status t = ''pending''"
    proof (rule ccontr)
      assume "task_status t \<noteq> ''pending''"
      from inv(2)[OF t(1) this] obtain u where
        "u \<in> set tasks1" "task_id u = task_id t" "task_status u \<noteq> ''pending''" by blast
      with ih2 a t(2) show False by auto
    qed
  qed
  show ?case
  proof (cases r)
    case None
    with leased ih1 old show ?thesis by simp
  next
    case (Some a)
    from inv(3)[OF Some] ih2 have "task_id a \<notin> task_id ` set ls" by auto
    with Some leased ih1 old inv(3)[OF Some] show ?thesis by auto
  qed
qed

text \<open>
  C3. The lease is one \<open>find_one_and_update\<close> that selects on \<open>status = pending\<close> and sets
  \<open>status = processing\<close>; the database serves such operations one at a time. In every run of
  leases (by any workers), worker status updates and task insertions over a collection with
  distinct ids, no task is handed out twice: at most one worker ever receives a given task. When
  two workers race on a collection with one pending task, the lease served first receives it and
  the other receives nothing, whichever worker is served first.
\<close>

theorem C3_lease_is_exclusive:
  assumes "distinct (map task_id tasks)" and "\<forall>opn \<in> set ops. worker_op opn"
  shows "distinct (map task_id (fst (run_queue ops tasks))) \<and>
         (\<forall>t now1 pid1 now2 pid2.
            filter (\<lambda>u. task_status u = ''pending'') tasks = [t] \<longrightarrow>
            fst (lease now1 pid1 tasks) = Some t \<and>
            fst (lease now2 pid2 (snd (lease now1 pid1 tasks))) = None)"
proof -
  have one: "distinct (map task_id (fst (run_queue ops tasks)))"
    using run_queue_leases_once[OF assms, of "fst (run_queue ops tasks)" "snd (run_queue ops tasks)"]
    by simp
  have two: "fst (lease now1 pid1 tasks) = Some t \<and>
            fst (lease now2 pid2 (snd (lease now1 pid1 tasks))) = None"
    if f: "filter (\<lambda>u. task_status u = ''pending'') tasks = [t]" for t now1 pid1 now2 pid2
  proof -
    have pend: "u \<in> set tasks \<and> task_status u = ''pending'' \<longleftrightarrow> u = t" for u
    proof -
      have "u \<in> set (filter (\<lambda>u. task_status u = ''pending'') tasks) \<longleftrightarrow> u = t"
        unfolding f by simp
      then show ?thesis by simp
    qed
    obtain r1 tasks1 where l1: "lease now1 pid1 tasks = (r1, tasks1)"
      by (cases "lease now1 pid1 tasks")
    have "r1 \<noteq> None"
    proof
      assume "r1 = None"
      with l1 lease_None[of now1 pid1 tasks tasks1] pend[of t] show False by auto
    qed
    then obtain a where a: "r1 = Some a" by auto
    from lease_Some[OF l1[unfolded a]] obtain i where i: "i < length tasks" "tasks ! i = a"
      "task_status a = ''pending''"
      "tasks1 = tasks[i := a\<lparr>task_status := ''processing'', updated_at := now1,
                                  worker_id := Some pid1\<rparr>]"
      by blast
    from i have "a \<in> set tasks" by (metis nth_mem)
    with i pend[of a] have at: "a = t" by simp
    have none: "\<forall>u \<in> set tasks1. task_status u \<noteq> ''pending''"
    proof
      fix u assume "u \<in> set tasks1"
      then obtain j where j: "j < length tasks1" "tasks1 ! j = u"
        by (auto simp: in_set_conv_nth)
      show "task_status u \<noteq> ''pending''"
      proof (cases "j = i")
        case True
        have "u = tasks1 ! i" using j True by simp
        also have "\<dots> = a\<lparr>task_status := ''processing'', updated_at := now1,
                                  worker_id := Some pid1\<rparr>"
          using i by simp
        finally show ?thesis by simp
      next
        case False
        with i j have u: "tasks ! j = u" "j < length tasks" by simp_all
        then have "u \<in> set tasks" by (metis nth_mem)
        show ?thesis
        proof
          assume "task_status u = ''pending''"
          with \<open>u \<in> set tasks\<close> pend[of u] at have "u = a" by simp
          moreover from assms(1) have "distinct tasks" by (simp add: distinct_map)
          ultimately have "tasks ! j = tasks ! i" "distinct tasks"
            using u i by simp_all
          with u(2) i(1) False show False
            by (simp add: nth_eq_iff_index_eq)
        qed
      qed
    qed
    obtain r2 tasks2 where l2: "lease now2 pid2 tasks1 = (r2, tasks2)"
      by (cases "lease now2 pid2 tasks1")
    have "r2 = None"
    proof (cases r2)
      case None
      then show ?thesis .
    next
      case (Some b)
      from lease_Some[OF l2[unfolded Some]] obtain k where "k < length tasks1" "tasks1 ! k = b"
        "task_status b = ''pending''" by blast
      with none show ?thesis by (metis nth_mem)
    qed
    with l1 l2 a at show ?thesis by simp
  qed
  from one two show ?thesis by blast
qed

theorem C3_witness:
  "fst (lease 30 7 [task_A]) = Some task_A \<and>
   fst (lease 31 8 (snd (lease 30 7 [task_A]))) = None \<and>
   fst (lease 31 8 [task_A]) = Some task_A \<and>
   fst (lease 30 7 (snd (lease 31 8 [task_A]))) = None \<and>
   distinct (map task_id (fst (run_queue [Lease 30 7, Lease 31 8] [task_B, task_A])))"
proof -
  have d: "distinct (map task_id [task_A])" by simp
  have d2: "distinct (map task_id [task_B, task_A])"
    by (simp add: task_A_def task_B_def)
  have w: "\<forall>opn \<in> set [Lease 30 7, Lease 31 8]. worker_op opn" by simp
  have f: "filter (\<lambda>u. task_status u = ''pending'') [task_A] = [task_A]"
    by (simp add: task_A_def)
  from C3_lease_is_exclusive[OF d w] f C3_lease_is_exclusive[OF d2 w]
  show ?thesis by blast
qed

section \<open>The pipelines: results\<close>







lemma no_later_files [simp]: "no_later k c0 dir (w\<lparr>files := fs\<rparr>) = no_later k c0 dir w"
  by (simp add: no_later_def)

lemma same_control_refl [simp]: "same_control w w"
  by (simp add: same_control_def)


lemma same_control_calls_files [simp]:
  "same_control w (w1\<lparr>calls := c\<rparr>) = same_control w w1"
  "same_control w (w1\<lparr>files := fs\<rparr>) = same_control w w1"
  "same_control (w1\<lparr>calls := c\<rparr>) w2 = same_control w1 w2"
  "same_control (w1\<lparr>files := fs\<rparr>) w2 = same_control w1 w2"
  by (simp_all add: same_control_def)















lemma no_later_active_processes [simp]:
  "no_later k c0 dir (w\<lparr>active_processes := procs\<rparr>) = no_later k c0 dir w"
  by (simp add: no_later_def)









lemma no_later_tasks_collection [simp]:
  "no_later k c0 dir (w\<lparr>tasks_collection := ts\<rparr>) = no_later k c0 dir w"
  by (simp add: no_later_def)

lemma map_task_id_update_task_status [simp]:
  "map task_id (update_task_status tid status progress message now tasks) = map task_id tasks"
  by (simp add: update_task_status_def map_task_id_update_one)














text \<open>
  A consequence of the loop of \<open>save_file_info\<close>: the artifact information of the acquisition
  stage holds the path of the downloaded video, which \<open>generate_file_hash\<close> has just read, under
  the key \<open>video_path\<close>, and no key \<open>video_path_info\<close>. The loop therefore raises, and the
  acquisition stage never returns normally.
\<close>

lemma expand_file_paths_acquisition:
  assumes "fs vp = Some bytes"
  shows "expand_file_paths L fs 0
           [(''stage'', Val (PStr ''acquisition'')),
            (''video_path'', Val (PStr vp)),
            (''video_hash'', Val (PStr video_hash)),
            (''audio_path'', Val (PStr ap)),
            (''audio_hash'', Val (PStr audio_hash)),
            (''video_info'', Val vi)]
         = Inl (RuntimeError ''dictionary changed size during iteration'')"
  using assms
  by (subst expand_file_paths.simps, simp split: option.splits)
     (subst expand_file_paths.simps, simp)

lemma do_acquisition_raises: "isl (fst (do_acquisition L E cfg url x w))"
proof (cases "download E cfg url (files w)")
  case (Pair r fs)
  show ?thesis
  proof (cases r)
    case (Inl e)
    with Pair show ?thesis by (simp add: do_acquisition_def Let_def)
  next
    case (Inr out)
    obtain vp ap vi where out: "out = (vp, ap, vi)" by (cases out)
    show ?thesis
    proof (cases "fs vp")
      case None
      with Pair Inr out show ?thesis
        by (simp add: do_acquisition_def Let_def file_hash_def generate_file_hash_def)
    next
      case (Some bytes)
      note raise = expand_file_paths_acquisition[where fs = fs and vp = vp, OF Some]
      show ?thesis
        using Pair Inr out Some
        by (auto simp: do_acquisition_def Let_def file_hash_def generate_file_hash_def
            record_artifact_def save_file_info_def raise split: option.splits)
    qed
  qed
qed



lemma editing_procs_p1:
  "editing_procs ''p1'' =
     Some \<lparr>p_status = ''editing'', p_progress = 40,
           p_current_stage = ''Montage de la vid'' @ [e_acute] @ ''o'',
           p_started_at = 0, p_output_dir = ''data/output/p1'', p_error = None\<rparr>"
  by (simp add: editing_procs_def update_process_status_def convert_video_def)



text \<open>
  C6 (amended). The cancelled status is sticky against \<open>update_process_status\<close>: on a cancelled
  process the update raises and leaves the processes unchanged, and a pipeline stage that opens
  on a cancelled process raises and leaves the whole state unchanged. A process that is completed
  or failed rejects a cancel request, unchanged. (\<open>update_process_status\<close> has no guard for
  completed and failed, and the worker's \<open>update_task_status\<close> has no guard at all.)
\<close>

theorem C6_cancelled_rejects_updates:
  "(procs process_id = Some p \<and> p_status p = ''cancelled'' \<longrightarrow>
      update_process_status process_id status progress label procs =
        (Inl (ValueError (''Processus annul'' @ [e_acute] @ '' par l'utilisateur'')), procs)) \<and>
   (active_processes w process_id = Some p \<and> p_status p = ''cancelled'' \<longrightarrow>
      app_stage C process_id s body x w =
        (Inl (ValueError (''Processus annul'' @ [e_acute] @ '' par l'utilisateur'')), w)) \<and>
   (procs process_id = Some p \<and> p_status p \<in> {''completed'', ''failed''} \<longrightarrow>
      cancel_conversion process_id procs =
        (Inl (HTTPException 400 (''Processus d'' @ [e_acute] @ ''j'' @ [CHR 0xE0]
                                  @ '' termin'' @ [e_acute])), procs))"
  by (auto simp: update_process_status_def app_stage_def cancel_conversion_def)

text \<open>
  The claim as stated asks that every update of a completed or failed process is rejected.
  \<open>update_process_status\<close> on the completed process \<open>p1\<close> succeeds and sets the status back to
  \<open>downloading\<close>; the worker's \<open>update_task_status\<close> on a completed task sets it to
  \<open>processing\<close>.
\<close>

theorem C6_counterexample:
  "map_option p_status (completed_procs ''p1'') = Some ''completed'' \<and>
   fst (update_process_status ''p1'' ''downloading'' 5 ''again'' completed_procs) = Inr () \<and>
   map_option p_status
     (snd (update_process_status ''p1'' ''downloading'' 5 ''again'' completed_procs) ''p1'')
     = Some ''downloading'' \<and>
   map task_status
     (update_task_status ''task_A'' ''processing'' 5 ''again'' 40
        [task_A\<lparr>task_status := ''completed''\<rparr>]) = [''processing'']"
  by (simp add: completed_procs_def update_process_status_def update_task_status_def task_A_def)

theorem C6_witness:
  "update_process_status ''p1'' ''adapting'' 60 ''Adaptation au format TikTok''
     (snd (cancel_conversion ''p1'' editing_procs)) =
     (Inl (ValueError (''Processus annul'' @ [e_acute] @ '' par l'utilisateur'')),
      snd (cancel_conversion ''p1'' editing_procs)) \<and>
   fst (cancel_conversion ''p1'' completed_procs) =
     Inl (HTTPException 400 (''Processus d'' @ [e_acute] @ ''j'' @ [CHR 0xE0]
                              @ '' termin'' @ [e_acute]))"
proof -
  have one: "snd (cancel_conversion ''p1'' editing_procs) ''p1'' =
        Some \<lparr>p_status = ''cancelled'', p_progress = 100, p_current_stage = ''annulation'',
           p_started_at = 0, p_output_dir = ''data/output/p1'', p_error = None\<rparr>"
    by (simp add: editing_procs_p1 cancel_conversion_def)
  have two: "completed_procs ''p1'' =
        Some \<lparr>p_status = ''completed'', p_progress = 100,
                  p_current_stage = ''Conversion termin'' @ [e_acute] @ ''e'',
                  p_started_at = 0, p_output_dir = ''data/output/p1'', p_error = None\<rparr>"
    by (simp add: completed_procs_def)
  from C6_cancelled_rejects_updates[where procs = "snd (cancel_conversion ''p1'' editing_procs)"
      and process_id = "''p1''" and status = "''adapting''" and progress = 60
      and label = "''Adaptation au format TikTok''"
      and p = "\<lparr>p_status = ''cancelled'', p_progress = 100, p_current_stage = ''annulation'',
           p_started_at = 0, p_output_dir = ''data/output/p1'', p_error = None\<rparr>"] one
  have "update_process_status ''p1'' ''adapting'' 60 ''Adaptation au format TikTok''
     (snd (cancel_conversion ''p1'' editing_procs)) =
     (Inl (ValueError (''Processus annul'' @ [e_acute] @ '' par l'utilisateur'')),
      snd (cancel_conversion ''p1'' editing_procs))"
    by simp
  moreover from C6_cancelled_rejects_updates[where procs = completed_procs
      and process_id = "''p1''"
      and p = "\<lparr>p_status = ''completed'', p_progress = 100,
                  p_current_stage = ''Conversion termin'' @ [e_acute] @ ''e'',
                  p_started_at = 0, p_output_dir = ''data/output/p1'', p_error = None\<rparr>"] two
  have "fst (cancel_conversion ''p1'' completed_procs) =
     Inl (HTTPException 400 (''Processus d'' @ [e_acute] @ ''j'' @ [CHR 0xE0]
                              @ '' termin'' @ [e_acute]))"
    by simp
  ultimately show ?thesis by simp
qed





text \<open>The run of the worker on the leased task A when the download raises.\<close>

lemma failing_download_body:
  "fst (process_task_body demo_lib failing_download 31 task_A leased_world)
     = Inl (OtherError ''network unreachable'')"
  "calls (snd (process_task_body demo_lib failing_download 31 task_A leased_world))
     = [(Acquisition, True)]"
  "audit_disk (snd (process_task_body demo_lib failing_download 31 task_A leased_world)) ''task_A''
     = Some \<lparr>doc_process_id = ''task_A'', doc_status = ''started'',
             doc_events = [\<lparr>ev_type = ''process_start'',
                            ev_details = D_process_start ''https://youtu.be/x''\<rparr>],
             doc_error = None\<rparr>"
proof -
  have pid: "task_pid task_A = ''task_A''" "task_id task_A = ''task_A''"
    "param_url (task_parameters task_A) = ''https://youtu.be/x''"
    "param_publish (task_parameters task_A) = False"
    by (simp_all add: task_A_def task_pid_def demo_params_def)
  have c: "calls leased_world = []"
    by (simp add: leased_world_def empty_world_def)
  show "fst (process_task_body demo_lib failing_download 31 task_A leased_world)
     = Inl (OtherError ''network unreachable'')"
    by (simp add: process_task_body_def pid Let_def AuditLogger_init_def log_start_def
        log_event_def write_log_def ArtifactManager_init_def save_manifest_def worker_steps_def
        worker_stage_def do_acquisition_def failing_download_def)
  show "calls (snd (process_task_body demo_lib failing_download 31 task_A leased_world))
     = [(Acquisition, True)]"
    by (simp add: process_task_body_def pid Let_def AuditLogger_init_def log_start_def
        log_event_def write_log_def ArtifactManager_init_def save_manifest_def worker_steps_def
        worker_stage_def do_acquisition_def failing_download_def c)
  show "audit_disk (snd (process_task_body demo_lib failing_download 31 task_A leased_world)) ''task_A''
     = Some \<lparr>doc_process_id = ''task_A'', doc_status = ''started'',
             doc_events = [\<lparr>ev_type = ''process_start'',
                            ev_details = D_process_start ''https://youtu.be/x''\<rparr>],
             doc_error = None\<rparr>"
    by (simp add: process_task_body_def pid Let_def AuditLogger_init_def log_start_def
        log_event_def write_log_def ArtifactManager_init_def save_manifest_def worker_steps_def
        worker_stage_def do_acquisition_def failing_download_def)
qed

lemma failing_download_task:
  "process_task demo_lib failing_download 31 task_A leased_world =
     worker_handler 31 task_A (OtherError ''network unreachable'')
       (snd (process_task_body demo_lib failing_download 31 task_A leased_world))"
proof -
  have lw: "leased_world\<lparr>audit_logger := None\<rparr> = leased_world"
    by (simp add: leased_world_def empty_world_def)
  show ?thesis
    using failing_download_body(1)
    by (cases "process_task_body demo_lib failing_download 31 task_A leased_world")
       (simp add: process_task_def lw)
qed


lemma AuditLogger_init_no_events:
  "map_option doc_events (snd (AuditLogger_init process_id disk) process_id) = Some []"
  by (simp add: AuditLogger_init_def write_log_def Let_def)

text \<open>
  C8. The worker processes the leased task A with a download that raises. When the \<open>try\<close> block
  raises, the audit document on disk holds the event \<open>process_start\<close>. The \<open>except\<close> block makes
  a new \<open>AuditLogger\<close> for the same process id, which writes a document with no event
  (\<open>AuditLogger_init_no_events\<close>), and logs the error: after \<open>process_task\<close> the document holds
  the event \<open>error\<close> alone, the event \<open>process_start\<close> is gone.
\<close>

theorem C8_new_logger_erases_events:
  "map_option (map ev_type \<circ> doc_events)
     (audit_disk (snd (process_task_body demo_lib failing_download 31 task_A leased_world)) ''task_A'')
     = Some [''process_start''] \<and>
   map_option (map ev_type \<circ> doc_events)
     (audit_disk (process_task demo_lib failing_download 31 task_A leased_world) ''task_A'')
     = Some [''error'']"
proof -
  have pid: "task_pid task_A = ''task_A''"
    by (simp add: task_A_def task_pid_def)
  have "audit_disk (process_task demo_lib failing_download 31 task_A leased_world) ''task_A''
      = Some \<lparr>doc_process_id = ''task_A'', doc_status = ''error'',
                 doc_events = [\<lparr>ev_type = ''error'', ev_details = D_error ''network unreachable''\<rparr>],
                 doc_error = Some ''network unreachable''\<rparr>"
    unfolding failing_download_task
    by (simp add: worker_handler_def AuditLogger_init_def log_error_def log_event_def
        write_log_def Let_def pid)
  then show ?thesis
    by (simp add: failing_download_body(3))
qed


end
